theory Spec2Isabelle
  imports Main
begin

section \<open>Data model (models.py)\<close>

text \<open>
  The fixed set of allowed memory types, \<^verbatim>\<open>ALLOWED_MEMORY_TYPES\<close> of models.py,
  with the eight strings in the order the source lists them.
\<close>

definition ALLOWED_MEMORY_TYPES :: "string set" where
  "ALLOWED_MEMORY_TYPES =
     {''design_doc'', ''project_overview'', ''implementation_plan'', ''progress_tracker'',
      ''test_plan'', ''instructions'', ''guidelines'', ''analysis''}"

text \<open>
  The dataclass \<^verbatim>\<open>Memory\<close>. The field \<^verbatim>\<open>id\<close> is called \<open>memory_id\<close> and
  the field \<^verbatim>\<open>type\<close> is called \<open>memory_type\<close> (the names the storage layer uses
  for them); \<^verbatim>\<open>updated_at: str | None\<close> is an option.
\<close>

record Memory =
  memory_id :: string
  title :: string
  memory_type :: string
  content :: string
  created_at :: string
  updated_at :: "string option"

text \<open>
  The dictionary that \<^verbatim>\<open>Memory.to_dict\<close> builds and that the JSON file stores for
  each memory: the six keys \<^verbatim>\<open>id, title, type, content, created_at, updated_at\<close>.
\<close>

record mem_dict =
  d_id :: string
  d_title :: string
  d_type :: string
  d_content :: string
  d_created_at :: string
  d_updated_at :: "string option"

definition to_dict :: "Memory \<Rightarrow> mem_dict" where
  "to_dict m =
     \<lparr>d_id = memory_id m, d_title = title m, d_type = memory_type m,
      d_content = content m, d_created_at = created_at m, d_updated_at = updated_at m\<rparr>"

definition from_dict :: "mem_dict \<Rightarrow> Memory" where
  "from_dict d =
     \<lparr>memory_id = d_id d, title = d_title d, memory_type = d_type d,
      content = d_content d, created_at = d_created_at d, updated_at = d_updated_at d\<rparr>"

text \<open>The dataclass \<^verbatim>\<open>MemoryMetadata\<close>: id, title and type, and no content field.\<close>

record MemoryMetadata =
  meta_id :: string
  meta_title :: string
  meta_type :: string

text \<open>
  The exception classes of models.py. Each carries the argument its constructor takes;
  \<open>error_code\<close> is the \<^verbatim>\<open>error_code\<close> attribute the constructor sets.
  \<open>StorageError\<close> stands for every message: the message embeds the text of the
  operating system's error, which the model does not carry.
\<close>

datatype error =
    InvalidMemoryTypeError string
  | MissingRequiredFieldError string
  | MemoryNotFoundError string
  | ProjectNotActivatedError
  | StorageError

fun error_code :: "error \<Rightarrow> string" where
  "error_code (InvalidMemoryTypeError _) = ''invalid_memory_type''"
| "error_code (MissingRequiredFieldError _) = ''missing_required_field''"
| "error_code (MemoryNotFoundError _) = ''memory_not_found''"
| "error_code ProjectNotActivatedError = ''project_not_activated''"
| "error_code StorageError = ''storage_error''"

definition validate_memory_type :: "string \<Rightarrow> error + unit" where
  "validate_memory_type mt =
     (if mt \<notin> ALLOWED_MEMORY_TYPES then Inl (InvalidMemoryTypeError mt) else Inr ())"

text \<open>
  \<^verbatim>\<open>validate_required_field(value, field_name)\<close>: the value may be \<^verbatim>\<open>None\<close>
  (here \<open>None\<close>) or a string. The source returns nothing; the model returns the string
  that passed the check, so that the caller needs no partial projection.
\<close>

definition validate_required_field :: "string option \<Rightarrow> string \<Rightarrow> error + string" where
  "validate_required_field v field_name =
     (case v of
        None \<Rightarrow> Inl (MissingRequiredFieldError field_name)
      | Some x \<Rightarrow> if x = [] then Inl (MissingRequiredFieldError field_name) else Inr x)"

section \<open>The environment: file system, UUIDs, clock\<close>

text \<open>
  The parsed content of \<^verbatim>\<open>memories.json\<close>: the project id and the list of memory
  dictionaries, in file order. The project id is an option because
  \<^verbatim>\<open>_read_memories_file\<close> fills it from \<^verbatim>\<open>self.project_id\<close>, which is
  \<^verbatim>\<open>Optional[str]\<close>.
\<close>

record data =
  data_project_id :: "string option"
  memories :: "mem_dict list"

text \<open>
  What is on disk under the name \<^verbatim>\<open>memories.json\<close>: text that \<^verbatim>\<open>json.load\<close>
  rejects (\<^verbatim>\<open>JSONDecodeError\<close>), or a document. \<^verbatim>\<open>json.dump\<close> followed by
  \<^verbatim>\<open>json.load\<close> gives back the dictionary of strings and lists it was given, so
  the file is represented by the document it parses to.
\<close>

datatype file_content = Malformed | Json data

text \<open>The directory \<^verbatim>\<open>.infinity\<close> with the two files the storage layer uses.\<close>

record infinity_dir =
  project_id_file :: "string option"
  memories_file :: "file_content option"

text \<open>
  The part of the file system under the working directory. \<open>dir = None\<close> says that
  \<^verbatim>\<open>.infinity\<close> does not exist. \<open>read_only\<close> says that the operating system
  refuses every creation and every write there with an \<^verbatim>\<open>OSError\<close>; reading an
  existing file always succeeds. The temporary file \<^verbatim>\<open>memories.tmp\<close> is not
  a field: a write that succeeds renames it away, and a write that is refused never
  creates it.
\<close>

record filesystem =
  dir :: "infinity_dir option"
  read_only :: bool

text \<open>
  A \<^verbatim>\<open>MemoryStorage\<close> instance together with the file system it points at:
  \<open>project_id\<close> is the attribute \<^verbatim>\<open>self.project_id\<close>, \<^verbatim>\<open>None\<close> after
  \<^verbatim>\<open>__init__\<close>.
\<close>

record storage =
  project_id :: "string option"
  fs :: filesystem

definition init :: "filesystem \<Rightarrow> storage" where
  "init f = \<lparr>project_id = None, fs = f\<rparr>"

text \<open>
  \<^verbatim>\<open>str.strip()\<close> on the text of the identity file removes, at both ends, the
  characters of which \<^verbatim>\<open>str.isspace()\<close> is true. Among the characters with a code
  below 256 these are the codes 9 to 13, 28 to 31, 32, 133 (U+0085) and 160 (U+00A0).
\<close>

definition is_space :: "char \<Rightarrow> bool" where
  "is_space c =
     (let n = (of_char c :: nat) in
        (9 \<le> n \<and> n \<le> 13) \<or> (28 \<le> n \<and> n \<le> 31) \<or> n = 32 \<or> n = 133 \<or> n = 160)"

definition strip :: "string \<Rightarrow> string" where
  "strip s = rev (dropWhile is_space (rev (dropWhile is_space s)))"

text \<open>
  What \<^verbatim>\<open>str(uuid.uuid4())\<close> returns: 36 characters, each a lower-case hexadecimal
  digit or a hyphen. The value itself is an input of the operations that draw one.
\<close>

definition uuid_str :: "string \<Rightarrow> bool" where
  "uuid_str u = (length u = 36 \<and> list_all (\<lambda>c. c \<in> set ''0123456789abcdef-'') u)"

section \<open>The storage layer (storage.py)\<close>

text \<open>
  Every operation returns the value or the exception raised, paired with the state
  the call leaves behind: an exception does not undo an assignment made before it.
\<close>

definition memories_path :: "storage \<Rightarrow> file_content option" where
  "memories_path s = (case dir (fs s) of None \<Rightarrow> None | Some d \<Rightarrow> memories_file d)"

definition project_id_path :: "storage \<Rightarrow> string option" where
  "project_id_path s = (case dir (fs s) of None \<Rightarrow> None | Some d \<Rightarrow> project_id_file d)"

definition ensure_activated :: "storage \<Rightarrow> error + unit" where
  "ensure_activated s =
     (case project_id s of None \<Rightarrow> Inl ProjectNotActivatedError | Some _ \<Rightarrow> Inr ())"

definition read_memories_file :: "storage \<Rightarrow> error + data" where
  "read_memories_file s =
     (case memories_path s of
        None \<Rightarrow> Inr \<lparr>data_project_id = project_id s, memories = []\<rparr>
      | Some Malformed \<Rightarrow> Inl StorageError
      | Some (Json d) \<Rightarrow> Inr d)"

text \<open>
  \<^verbatim>\<open>_write_memories_file\<close>: opening the temporary file fails when the directory
  is missing or refuses writes; otherwise the rename replaces the file as a whole.
\<close>

definition write_memories_file :: "storage \<Rightarrow> data \<Rightarrow> error + storage" where
  "write_memories_file s d =
     (case dir (fs s) of
        None \<Rightarrow> Inl StorageError
      | Some di \<Rightarrow>
          if read_only (fs s) then Inl StorageError
          else Inr (s\<lparr>fs := (fs s)\<lparr>dir := Some (di\<lparr>memories_file := Some (Json d)\<rparr>)\<rparr>\<rparr>))"

text \<open>
  \<^verbatim>\<open>activate_project\<close>, with the UUID that \<^verbatim>\<open>uuid.uuid4()\<close> would draw as its
  first argument. The three steps run in the order of the source; the attribute
  \<^verbatim>\<open>self.project_id\<close> is assigned in the second step, before the identity file
  and the memories file are written.
\<close>

definition activate_project :: "string \<Rightarrow> storage \<Rightarrow> (error + string) \<times> storage" where
  "activate_project uuid4 s =
     (case (case dir (fs s) of
              None \<Rightarrow>
                if read_only (fs s) then Inl StorageError
                else Inr (s\<lparr>fs := (fs s)\<lparr>dir :=
                       Some \<lparr>project_id_file = None, memories_file = None\<rparr>\<rparr>\<rparr>)
            | Some _ \<Rightarrow> Inr s) of
        Inl e \<Rightarrow> (Inl e, s)
      | Inr s1 \<Rightarrow>
          (case (case project_id_path s1 of
                   Some txt \<Rightarrow> (Inr (strip txt), s1\<lparr>project_id := Some (strip txt)\<rparr>)
                 | None \<Rightarrow>
                     (let s2 = s1\<lparr>project_id := Some uuid4\<rparr> in
                      case dir (fs s2) of
                        None \<Rightarrow> (Inl StorageError, s2)
                      | Some di \<Rightarrow>
                          if read_only (fs s2) then (Inl StorageError, s2)
                          else (Inr uuid4, s2\<lparr>fs := (fs s2)\<lparr>dir :=
                                  Some (di\<lparr>project_id_file := Some uuid4\<rparr>)\<rparr>\<rparr>))) of
             (Inl e, s3) \<Rightarrow> (Inl e, s3)
           | (Inr p, s3) \<Rightarrow>
               (case (case memories_path s3 of
                        None \<Rightarrow>
                          write_memories_file s3
                            \<lparr>data_project_id = project_id s3, memories = []\<rparr>
                      | Some _ \<Rightarrow> Inr s3) of
                  Inl e \<Rightarrow> (Inl e, s3)
                | Inr s4 \<Rightarrow> (Inr p, s4))))"

text \<open>
  \<^verbatim>\<open>store_memory\<close>, with the UUID and the time stamp the call would draw as its
  first two arguments. The title and the content may be \<^verbatim>\<open>None\<close>, which the
  source tests for.
\<close>

definition store_memory ::
  "string \<Rightarrow> string \<Rightarrow> storage \<Rightarrow> string option \<Rightarrow> string \<Rightarrow> string option \<Rightarrow>
     (error + string) \<times> storage" where
  "store_memory uuid4 now s ttl mt cnt =
     (case ensure_activated s of
        Inl e \<Rightarrow> (Inl e, s)
      | Inr _ \<Rightarrow>
     (case validate_required_field ttl ''title'' of
        Inl e \<Rightarrow> (Inl e, s)
      | Inr t \<Rightarrow>
     (case validate_memory_type mt of
        Inl e \<Rightarrow> (Inl e, s)
      | Inr _ \<Rightarrow>
     (case (case cnt of
              None \<Rightarrow> validate_required_field cnt ''content''
            | Some c \<Rightarrow> Inr c) of
        Inl e \<Rightarrow> (Inl e, s)
      | Inr c \<Rightarrow>
          (let memory = \<lparr>memory_id = uuid4, title = t, memory_type = mt, content = c,
                          created_at = now, updated_at = None\<rparr> in
           case read_memories_file s of
             Inl e \<Rightarrow> (Inl e, s)
           | Inr d \<Rightarrow>
               (case write_memories_file s (d\<lparr>memories := memories d @ [to_dict memory]\<rparr>) of
                  Inl e \<Rightarrow> (Inl e, s)
                | Inr s' \<Rightarrow> (Inr uuid4, s')))))))"

text \<open>The search loop of \<^verbatim>\<open>get_memory\<close>: the first dictionary with the id.\<close>

fun find_memory :: "string \<Rightarrow> mem_dict list \<Rightarrow> mem_dict option" where
  "find_memory mid [] = None"
| "find_memory mid (m # ms) = (if d_id m = mid then Some m else find_memory mid ms)"

definition get_memory :: "storage \<Rightarrow> string \<Rightarrow> (error + Memory) \<times> storage" where
  "get_memory s mid =
     (case ensure_activated s of
        Inl e \<Rightarrow> (Inl e, s)
      | Inr _ \<Rightarrow>
          (case read_memories_file s of
             Inl e \<Rightarrow> (Inl e, s)
           | Inr d \<Rightarrow>
               (case find_memory mid (memories d) of
                  Some m \<Rightarrow> (Inr (from_dict m), s)
                | None \<Rightarrow> (Inl (MemoryNotFoundError mid), s))))"

text \<open>
  The loop of \<^verbatim>\<open>list_memories\<close>: a dictionary is skipped when a filter is given
  and its type differs; otherwise its metadata is appended to the result so far.
\<close>

fun list_loop :: "string option \<Rightarrow> mem_dict list \<Rightarrow> MemoryMetadata list \<Rightarrow> MemoryMetadata list"
where
  "list_loop flt [] acc = acc"
| "list_loop flt (m # ms) acc =
     (if flt \<noteq> None \<and> Some (d_type m) \<noteq> flt then list_loop flt ms acc
      else list_loop flt ms
             (acc @ [\<lparr>meta_id = d_id m, meta_title = d_title m, meta_type = d_type m\<rparr>]))"

definition list_memories ::
  "storage \<Rightarrow> string option \<Rightarrow> (error + MemoryMetadata list) \<times> storage" where
  "list_memories s flt =
     (case ensure_activated s of
        Inl e \<Rightarrow> (Inl e, s)
      | Inr _ \<Rightarrow>
          (case read_memories_file s of
             Inl e \<Rightarrow> (Inl e, s)
           | Inr d \<Rightarrow> (Inr (list_loop flt (memories d) []), s)))"

text \<open>
  The loop of \<^verbatim>\<open>update_memory\<close>: the first dictionary with the id gets the new
  content and the time stamp, and the loop stops (\<^verbatim>\<open>break\<close>). The result is the
  flag \<^verbatim>\<open>found\<close> and the list after the loop.
\<close>

fun update_loop :: "string \<Rightarrow> string \<Rightarrow> string \<Rightarrow> mem_dict list \<Rightarrow> bool \<times> mem_dict list" where
  "update_loop now mid cnt [] = (False, [])"
| "update_loop now mid cnt (m # ms) =
     (if d_id m = mid then (True, m\<lparr>d_content := cnt, d_updated_at := Some now\<rparr> # ms)
      else (case update_loop now mid cnt ms of (found, ms') \<Rightarrow> (found, m # ms')))"

definition update_memory ::
  "string \<Rightarrow> storage \<Rightarrow> string \<Rightarrow> string \<Rightarrow> (error + unit) \<times> storage" where
  "update_memory now s mid cnt =
     (case ensure_activated s of
        Inl e \<Rightarrow> (Inl e, s)
      | Inr _ \<Rightarrow>
          (case read_memories_file s of
             Inl e \<Rightarrow> (Inl e, s)
           | Inr d \<Rightarrow>
               (case update_loop now mid cnt (memories d) of
                  (found, ms') \<Rightarrow>
                    if \<not> found then (Inl (MemoryNotFoundError mid), s)
                    else (case write_memories_file s (d\<lparr>memories := ms'\<rparr>) of
                            Inl e \<Rightarrow> (Inl e, s)
                          | Inr s' \<Rightarrow> (Inr (), s')))))"

definition delete_memory :: "storage \<Rightarrow> string \<Rightarrow> (error + unit) \<times> storage" where
  "delete_memory s mid =
     (case ensure_activated s of
        Inl e \<Rightarrow> (Inl e, s)
      | Inr _ \<Rightarrow>
          (case read_memories_file s of
             Inl e \<Rightarrow> (Inl e, s)
           | Inr d \<Rightarrow>
               (let original_length = length (memories d);
                    d' = d\<lparr>memories := filter (\<lambda>m. d_id m \<noteq> mid) (memories d)\<rparr> in
                if length (memories d') = original_length
                then (Inl (MemoryNotFoundError mid), s)
                else (case write_memories_file s d' of
                        Inl e \<Rightarrow> (Inl e, s)
                      | Inr s' \<Rightarrow> (Inr (), s')))))"

section \<open>Notions used to state the properties\<close>

text \<open>The metadata that \<^verbatim>\<open>list_memories\<close> builds from one stored dictionary.\<close>

definition metadata_of :: "mem_dict \<Rightarrow> MemoryMetadata" where
  "metadata_of m = \<lparr>meta_id = d_id m, meta_title = d_title m, meta_type = d_type m\<rparr>"

text \<open>The directory exists and accepts writes: no write of the storage layer fails.\<close>

definition writable :: "storage \<Rightarrow> bool" where
  "writable s = (dir (fs s) \<noteq> None \<and> \<not> read_only (fs s))"

text \<open>The ids of the stored memories, in file order.\<close>

definition ids :: "data \<Rightarrow> string list" where
  "ids d = map d_id (memories d)"

text \<open>
  The two invariants of a collection that only this storage layer has written: no id
  occurs twice, and every stored type is an allowed one.
\<close>

definition ids_distinct :: "data \<Rightarrow> bool" where
  "ids_distinct d = distinct (ids d)"

definition kinds_allowed :: "data \<Rightarrow> bool" where
  "kinds_allowed d = list_all (\<lambda>m. d_type m \<in> ALLOWED_MEMORY_TYPES) (memories d)"

section \<open>Auxiliary facts\<close>

lemma from_dict_to_dict: "from_dict (to_dict m) = m"
  by (simp add: from_dict_def to_dict_def)

lemma find_memory_None_iff: "find_memory mid ms = None \<longleftrightarrow> mid \<notin> set (map d_id ms)"
  by (induction ms) auto

lemma find_memory_append:
  "find_memory mid (xs @ ys) =
     (case find_memory mid xs of Some m \<Rightarrow> Some m | None \<Rightarrow> find_memory mid ys)"
  by (induction xs) auto

lemma find_memory_fresh_append:
  "mid \<notin> set (map d_id ms) \<Longrightarrow> d_id m = mid \<Longrightarrow> find_memory mid (ms @ [m]) = Some m"
  using find_memory_None_iff [of mid ms] by (simp add: find_memory_append)

text \<open>The loop of \<^verbatim>\<open>list_memories\<close> is a filter followed by a projection.\<close>

lemma list_loop_eq:
  "list_loop flt ms acc =
     acc @ map metadata_of (filter (\<lambda>m. flt = None \<or> flt = Some (d_type m)) ms)"
  by (induction ms arbitrary: acc) (auto simp: metadata_of_def)

lemma not_space_uuid_char: "c \<in> set ''0123456789abcdef-'' \<Longrightarrow> \<not> is_space c"
  by (auto simp: is_space_def)

lemma strip_id:
  assumes "s \<noteq> []" "\<not> is_space (hd s)" "\<not> is_space (last s)"
  shows "strip s = s"
proof -
  from assms have a: "dropWhile is_space s = s"
    by (simp add: dropWhile_eq_self_iff)
  from assms have b: "dropWhile is_space (rev s) = rev s"
    by (simp add: dropWhile_eq_self_iff hd_rev)
  show ?thesis by (simp add: strip_def a b)
qed

lemma strip_uuid: "uuid_str u \<Longrightarrow> strip u = u"
proof -
  assume u: "uuid_str u"
  then have ne: "u \<noteq> []" by (auto simp: uuid_str_def)
  from u have all: "\<forall>c\<in>set u. \<not> is_space c"
    unfolding uuid_str_def list_all_iff using not_space_uuid_char by blast
  from ne all have "\<not> is_space (hd u)" "\<not> is_space (last u)" by auto
  with ne show ?thesis by (rule strip_id)
qed

lemma write_succeeds:
  "writable s \<Longrightarrow> \<exists>s'. write_memories_file s d = Inr s'"
  by (auto simp: writable_def write_memories_file_def split: option.splits)

lemma read_after_write:
  "write_memories_file s d = Inr s' \<Longrightarrow>
     read_memories_file s' = Inr d \<and> project_id s' = project_id s \<and>
     project_id_path s' = project_id_path s \<and> writable s'"
  by (auto simp: write_memories_file_def read_memories_file_def memories_path_def
        project_id_path_def writable_def split: option.splits if_splits)

lemma get_memory_eq:
  assumes "project_id s \<noteq> None" "read_memories_file s = Inr d"
  shows "get_memory s mid =
     (case find_memory mid (memories d) of
        Some m \<Rightarrow> (Inr (from_dict m), s)
      | None \<Rightarrow> (Inl (MemoryNotFoundError mid), s))"
  using assms by (auto simp: get_memory_def ensure_activated_def split: option.splits)

lemma list_memories_filtered:
  assumes "project_id s \<noteq> None" and "read_memories_file s = Inr d"
  shows "list_memories s (Some k) =
           (Inr (map metadata_of (filter (\<lambda>m. d_type m = k) (memories d))), s)"
proof -
  have "filter (\<lambda>m. Some k = None \<or> Some k = Some (d_type m)) (memories d) =
        filter (\<lambda>m. d_type m = k) (memories d)"
    by (rule filter_cong) auto
  then have "list_loop (Some k) (memories d) [] =
        map metadata_of (filter (\<lambda>m. d_type m = k) (memories d))"
    by (simp only: list_loop_eq append_Nil)
  with assms show ?thesis
    by (auto simp: list_memories_def ensure_activated_def split: option.splits)
qed

lemma update_loop_absent:
  "mid \<notin> set (map d_id ms) \<Longrightarrow> update_loop now mid cnt ms = (False, ms)"
  by (induction ms) auto

lemma update_loop_present:
  "mid \<in> set (map d_id ms) \<Longrightarrow>
     \<exists>xs m ys. ms = xs @ m # ys \<and> d_id m = mid \<and> mid \<notin> set (map d_id xs) \<and>
       update_loop now mid cnt ms =
         (True, xs @ m\<lparr>d_content := cnt, d_updated_at := Some now\<rparr> # ys)"
proof (induction ms)
  case Nil
  then show ?case by simp
next
  case (Cons a ms)
  show ?case
  proof (cases "d_id a = mid")
    case True
    then have "a # ms = [] @ a # ms \<and> d_id a = mid \<and> mid \<notin> set (map d_id []) \<and>
       update_loop now mid cnt (a # ms) =
         (True, [] @ a\<lparr>d_content := cnt, d_updated_at := Some now\<rparr> # ms)"
      by simp
    then show ?thesis by blast
  next
    case False
    with Cons.prems have "mid \<in> set (map d_id ms)" by auto
    from Cons.IH [OF this] obtain xs m ys where
      h: "ms = xs @ m # ys" "d_id m = mid" "mid \<notin> set (map d_id xs)"
         "update_loop now mid cnt ms =
            (True, xs @ m\<lparr>d_content := cnt, d_updated_at := Some now\<rparr> # ys)"
      by blast
    with False have "a # ms = (a # xs) @ m # ys \<and> d_id m = mid \<and>
       mid \<notin> set (map d_id (a # xs)) \<and>
       update_loop now mid cnt (a # ms) =
         (True, (a # xs) @ m\<lparr>d_content := cnt, d_updated_at := Some now\<rparr> # ys)"
      by auto
    then show ?thesis by blast
  qed
qed

lemma find_memory_at:
  "mid \<notin> set (map d_id xs) \<Longrightarrow> d_id m = mid \<Longrightarrow> find_memory mid (xs @ m # ys) = Some m"
  using find_memory_None_iff [of mid xs] by (simp add: find_memory_append)

lemma update_memory_absent:
  assumes "project_id s \<noteq> None" "read_memories_file s = Inr d" "mid \<notin> set (ids d)"
  shows "update_memory now s mid cnt = (Inl (MemoryNotFoundError mid), s)"
  using assms update_loop_absent [of mid "memories d" now cnt]
  by (auto simp: update_memory_def ensure_activated_def ids_def split: option.splits)

lemma filter_absent:
  "mid \<notin> set (map d_id ms) \<Longrightarrow> filter (\<lambda>m. d_id m \<noteq> mid) ms = ms"
  by (induction ms) auto

lemma filter_present_shorter:
  "mid \<in> set (map d_id ms) \<Longrightarrow> length (filter (\<lambda>m. d_id m \<noteq> mid) ms) < length ms"
  by (induction ms) (auto simp: less_Suc_eq_le)

lemma filter_distinct_split:
  assumes "distinct (map d_id ms)" "mid \<in> set (map d_id ms)"
  shows "\<exists>xs m ys. ms = xs @ m # ys \<and> d_id m = mid \<and>
           filter (\<lambda>m. d_id m \<noteq> mid) ms = xs @ ys"
proof -
  from assms(2) obtain m where "m \<in> set ms" "d_id m = mid" by auto
  then obtain xs ys where sp: "ms = xs @ m # ys" by (auto dest: split_list)
  with assms(1) \<open>d_id m = mid\<close>
  have "mid \<notin> set (map d_id xs)" "mid \<notin> set (map d_id ys)" by auto
  then have "filter (\<lambda>m. d_id m \<noteq> mid) xs = xs" "filter (\<lambda>m. d_id m \<noteq> mid) ys = ys"
    by (simp_all add: filter_absent)
  with sp \<open>d_id m = mid\<close> show ?thesis by auto
qed

lemma list_memories_all:
  assumes "project_id s \<noteq> None" and "read_memories_file s = Inr d"
  shows "list_memories s None = (Inr (map metadata_of (memories d)), s)"
  using assms
  by (auto simp: list_memories_def ensure_activated_def list_loop_eq split: option.splits)

lemma delete_memory_absent:
  assumes "project_id s \<noteq> None" "read_memories_file s = Inr d" "mid \<notin> set (ids d)"
  shows "delete_memory s mid = (Inl (MemoryNotFoundError mid), s)"
  using assms filter_absent [of mid "memories d"]
  by (auto simp: delete_memory_def ensure_activated_def ids_def Let_def split: option.splits)

lemma delete_memory_present:
  assumes "project_id s \<noteq> None" "read_memories_file s = Inr d" "mid \<in> set (ids d)"
    and "write_memories_file s (d\<lparr>memories := filter (\<lambda>m. d_id m \<noteq> mid) (memories d)\<rparr>) = Inr s'"
  shows "delete_memory s mid = (Inr (), s')"
  using assms filter_present_shorter [of mid "memories d"]
  by (auto simp: delete_memory_def ensure_activated_def ids_def Let_def split: option.splits)

lemma activate_project_success:
  assumes "activate_project u s = (Inr p, s1)"
  shows "project_id s1 = Some p \<and> memories_path s1 \<noteq> None \<and>
         (case project_id_path s of
            Some txt \<Rightarrow> p = strip txt \<and> project_id_path s1 = Some txt
          | None \<Rightarrow> p = u \<and> project_id_path s1 = Some u)"
  using assms
  by (auto simp: activate_project_def project_id_path_def memories_path_def
        write_memories_file_def Let_def
        split: option.splits if_splits sum.splits prod.splits)


lemma activate_project_existing:
  assumes "project_id_path s = Some txt" "memories_path s \<noteq> None"
  shows "activate_project u s = (Inr (strip txt), s\<lparr>project_id := Some (strip txt)\<rparr>)"
  using assms
  by (auto simp: activate_project_def project_id_path_def memories_path_def
        split: option.splits)


text \<open>
  The record operations leave the identity file alone and never remove the backing file;
  the two reading operations leave the whole state alone.
\<close>

lemma write_keeps_identity:
  "write_memories_file s d = Inr s' \<Longrightarrow>
     project_id_path s' = project_id_path s \<and> memories_path s' \<noteq> None \<and>
     project_id s' = project_id s"
  by (auto simp: write_memories_file_def memories_path_def project_id_path_def
        split: option.splits if_splits)


lemma store_memory_keeps_identity:
  assumes "store_memory uuid4 now s ttl mt cnt = (r, s')"
  shows "project_id_path s' = project_id_path s \<and> project_id s' = project_id s \<and>
         (memories_path s \<noteq> None \<longrightarrow> memories_path s' \<noteq> None)"
  using assms write_keeps_identity
  by (fastforce simp: store_memory_def Let_def split: sum.splits)


lemma update_memory_keeps_identity:
  assumes "update_memory now s mid cnt = (r, s')"
  shows "project_id_path s' = project_id_path s \<and> project_id s' = project_id s \<and>
         (memories_path s \<noteq> None \<longrightarrow> memories_path s' \<noteq> None)"
  using assms write_keeps_identity
  by (fastforce simp: update_memory_def split: sum.splits prod.splits if_splits)


lemma delete_memory_keeps_identity:
  assumes "delete_memory s mid = (r, s')"
  shows "project_id_path s' = project_id_path s \<and> project_id s' = project_id s \<and>
         (memories_path s \<noteq> None \<longrightarrow> memories_path s' \<noteq> None)"
  using assms write_keeps_identity
  by (fastforce simp: delete_memory_def Let_def split: sum.splits if_splits)


lemma get_memory_keeps_state: "snd (get_memory s mid) = s"
  by (simp add: get_memory_def split: sum.splits option.splits)


lemma list_memories_keeps_state: "snd (list_memories s flt) = s"
  by (simp add: list_memories_def split: sum.splits)


text \<open>
  The two invariants hold of the collection a first activation creates, and every
  successful record operation keeps them, provided each id drawn is new.
\<close>

lemma update_loop_keeps_ids_and_types:
  "map d_id (snd (update_loop now mid cnt ms)) = map d_id ms \<and>
   map d_type (snd (update_loop now mid cnt ms)) = map d_type ms"
  by (induction ms) (auto split: prod.splits)


lemma kinds_allowed_iff:
  "kinds_allowed d \<longleftrightarrow> set (map d_type (memories d)) \<subseteq> ALLOWED_MEMORY_TYPES"
  by (auto simp: kinds_allowed_def list_all_iff)


lemma store_memory_keeps_invariants:
  assumes "store_memory uuid4 now s ttl mt cnt = (Inr i, s')"
    and "read_memories_file s = Inr d" and "uuid4 \<notin> set (ids d)"
    and "ids_distinct d" and "kinds_allowed d"
  shows "\<exists>d'. read_memories_file s' = Inr d' \<and> ids_distinct d' \<and> kinds_allowed d'"
proof -
  from assms(1,2) obtain t c where
    w: "write_memories_file s
          (d\<lparr>memories := memories d @
              [to_dict \<lparr>memory_id = uuid4, title = t, memory_type = mt, content = c,
                        created_at = now, updated_at = None\<rparr>]\<rparr>) = Inr s'"
    and k: "mt \<in> ALLOWED_MEMORY_TYPES"
    by (auto simp: store_memory_def Let_def validate_memory_type_def
          split: sum.splits if_splits)
  from read_after_write [OF w] assms(3,4,5) k show ?thesis
    by (auto simp: ids_distinct_def ids_def kinds_allowed_def to_dict_def)
qed


lemma update_memory_keeps_invariants:
  assumes "update_memory now s mid cnt = (Inr i, s')"
    and "read_memories_file s = Inr d" and "ids_distinct d" and "kinds_allowed d"
  shows "\<exists>d'. read_memories_file s' = Inr d' \<and> ids_distinct d' \<and> kinds_allowed d'"
proof -
  from assms(1,2) have
    w: "write_memories_file s (d\<lparr>memories := snd (update_loop now mid cnt (memories d))\<rparr>)
          = Inr s'"
    by (auto simp: update_memory_def split: sum.splits if_splits prod.splits)
  let ?d' = "d\<lparr>memories := snd (update_loop now mid cnt (memories d))\<rparr>"
  from update_loop_keeps_ids_and_types [of now mid cnt "memories d"]
  have "ids ?d' = ids d" and "map d_type (memories ?d') = map d_type (memories d)"
    by (simp_all add: ids_def)
  with assms(3,4) have "ids_distinct ?d'" and "kinds_allowed ?d'"
    by (simp_all add: ids_distinct_def kinds_allowed_iff)
  with read_after_write [OF w] show ?thesis by blast
qed


lemma delete_memory_keeps_invariants:
  assumes "delete_memory s mid = (Inr i, s')"
    and "read_memories_file s = Inr d" and "ids_distinct d" and "kinds_allowed d"
  shows "\<exists>d'. read_memories_file s' = Inr d' \<and> ids_distinct d' \<and> kinds_allowed d'"
proof -
  from assms(1,2) have
    w: "write_memories_file s (d\<lparr>memories := filter (\<lambda>m. d_id m \<noteq> mid) (memories d)\<rparr>)
          = Inr s'"
    by (auto simp: delete_memory_def Let_def split: sum.splits if_splits)
  from read_after_write [OF w] assms(3,4) show ?thesis
    by (auto simp: ids_distinct_def ids_def kinds_allowed_def list_all_iff distinct_map_filter)
qed


lemma activate_fresh_directory:
  assumes "dir f = None" and "\<not> read_only f"
  shows "\<exists>s'. activate_project u (init f) = (Inr u, s') \<and> project_id s' = Some u \<and>
           read_memories_file s' = Inr \<lparr>data_project_id = Some u, memories = []\<rparr> \<and>
           ids_distinct \<lparr>data_project_id = Some u, memories = []\<rparr> \<and>
           kinds_allowed \<lparr>data_project_id = Some u, memories = []\<rparr>"
  using assms
  by (simp add: activate_project_def init_def project_id_path_def memories_path_def
        write_memories_file_def read_memories_file_def ids_distinct_def ids_def
        kinds_allowed_def)


text \<open>
  The type check of \<^verbatim>\<open>store_memory\<close> accepts exactly the eight strings of
  \<^verbatim>\<open>ALLOWED_MEMORY_TYPES\<close>.
\<close>

lemma card_ALLOWED_MEMORY_TYPES: "card ALLOWED_MEMORY_TYPES = 8"
  by (simp add: ALLOWED_MEMORY_TYPES_def)


lemma store_memory_accepts_exactly_allowed:
  assumes "project_id s \<noteq> None" and "t \<noteq> []" and "read_memories_file s = Inr d"
    and "writable s"
  shows "(\<exists>s'. store_memory uuid4 now s (Some t) mt (Some c) = (Inr uuid4, s')) \<longleftrightarrow>
           mt \<in> ALLOWED_MEMORY_TYPES"
proof -
  obtain s' where w: "write_memories_file s
      (d\<lparr>memories := memories d @
          [to_dict \<lparr>memory_id = uuid4, title = t, memory_type = mt, content = c,
                    created_at = now, updated_at = None\<rparr>]\<rparr>) = Inr s'"
    using write_succeeds [OF assms(4)] by blast
  have rej: "store_memory uuid4 now s (Some t) mt (Some c) = (Inl (InvalidMemoryTypeError mt), s)"
    if "mt \<notin> ALLOWED_MEMORY_TYPES"
    using assms that
    by (auto simp: store_memory_def ensure_activated_def validate_required_field_def
          validate_memory_type_def)
  have acc: "store_memory uuid4 now s (Some t) mt (Some c) = (Inr uuid4, s')"
    if "mt \<in> ALLOWED_MEMORY_TYPES"
    using assms that w
    by (auto simp: store_memory_def ensure_activated_def validate_required_field_def
          validate_memory_type_def)
  from rej acc show ?thesis by (cases "mt \<in> ALLOWED_MEMORY_TYPES") auto
qed


section \<open>Creation and retrieval\<close>

text \<open>
  Claim C1. On an activated store whose backing file can be read and written, creating
  a memory with a non-empty title, an allowed type and a content that is not
  \<^verbatim>\<open>None\<close> succeeds and returns the id drawn for it; when that id is not yet the id
  of a stored memory, reading it back yields exactly the title, type and content given,
  \<open>created_at\<close> set to the time of creation, and \<open>updated_at\<close> absent.
\<close>

theorem create_read_roundtrip:
  assumes act: "project_id s \<noteq> None"
    and ttl: "t \<noteq> []"
    and kind: "mt \<in> ALLOWED_MEMORY_TYPES"
    and rd: "read_memories_file s = Inr d"
    and fresh: "uuid4 \<notin> set (ids d)"
    and wr: "writable s"
  shows "\<exists>s'. store_memory uuid4 now s (Some t) mt (Some c) = (Inr uuid4, s') \<and>
           get_memory s' uuid4 =
             (Inr \<lparr>memory_id = uuid4, title = t, memory_type = mt, content = c,
                   created_at = now, updated_at = None\<rparr>, s')"
proof -
  let ?m = "\<lparr>memory_id = uuid4, title = t, memory_type = mt, content = c,
              created_at = now, updated_at = None\<rparr>"
  let ?d = "d\<lparr>memories := memories d @ [to_dict ?m]\<rparr>"
  from wr obtain s' where w: "write_memories_file s ?d = Inr s'"
    using write_succeeds by blast
  have st: "store_memory uuid4 now s (Some t) mt (Some c) = (Inr uuid4, s')"
    using act ttl kind rd w
    by (auto simp: store_memory_def ensure_activated_def validate_required_field_def
          validate_memory_type_def)
  from read_after_write [OF w] act
  have rd': "read_memories_file s' = Inr ?d" and act': "project_id s' \<noteq> None" by auto
  have "d_id (to_dict ?m) = uuid4" by (simp add: to_dict_def)
  with fresh have "find_memory uuid4 (memories ?d) = Some (to_dict ?m)"
    by (simp add: find_memory_fresh_append ids_def)
  with get_memory_eq [OF act' rd'] have "get_memory s' uuid4 = (Inr ?m, s')"
    by (simp add: from_dict_to_dict)
  with st show ?thesis by blast
qed

theorem create_read_roundtrip_witness:
  "\<exists>s'. store_memory ''u2'' ''2024-01-01T00:00:00.000000Z''
           \<lparr>project_id = Some ''p1'',
            fs = \<lparr>dir = Some \<lparr>project_id_file = Some ''p1'',
                     memories_file = Some (Json \<lparr>data_project_id = Some ''p1'',
                       memories = [\<lparr>d_id = ''u1'', d_title = ''T1'', d_type = ''analysis'',
                         d_content = ''c1'', d_created_at = ''2023'',
                         d_updated_at = None\<rparr>]\<rparr>)\<rparr>,
                  read_only = False\<rparr>\<rparr>
           (Some ''T1'') ''design_doc'' (Some []) = (Inr ''u2'', s') \<and>
         get_memory s' ''u2'' =
           (Inr \<lparr>memory_id = ''u2'', title = ''T1'', memory_type = ''design_doc'',
                 content = [], created_at = ''2024-01-01T00:00:00.000000Z'',
                 updated_at = None\<rparr>, s')"
proof -
  let ?d = "\<lparr>data_project_id = Some ''p1'',
              memories = [\<lparr>d_id = ''u1'', d_title = ''T1'', d_type = ''analysis'',
                d_content = ''c1'', d_created_at = ''2023'', d_updated_at = None\<rparr>]\<rparr>"
  let ?s = "\<lparr>project_id = Some ''p1'',
             fs = \<lparr>dir = Some \<lparr>project_id_file = Some ''p1'', memories_file = Some (Json ?d)\<rparr>,
                   read_only = False\<rparr>\<rparr>"
  have a: "project_id ?s \<noteq> None" by simp
  have t: "''T1'' \<noteq> []" by simp
  have k: "''design_doc'' \<in> ALLOWED_MEMORY_TYPES" by (simp add: ALLOWED_MEMORY_TYPES_def)
  have r: "read_memories_file ?s = Inr ?d"
    by (simp add: read_memories_file_def memories_path_def)
  have f: "''u2'' \<notin> set (ids ?d)" by (simp add: ids_def)
  have w: "writable ?s" by (simp add: writable_def)
  from create_read_roundtrip [OF a t k r f w] show ?thesis .
qed

text \<open>
  Claim C2. The type check accepts the eight strings of \<^verbatim>\<open>ALLOWED_MEMORY_TYPES\<close>,
  the seventh of which is \<^verbatim>\<open>guidelines\<close>. The string \<^verbatim>\<open>rules\<close>, which the
  docstring of the tool and the tests \<^verbatim>\<open>test_all_memory_types_are_valid\<close> and
  \<^verbatim>\<open>test_all_memory_types_accepted\<close> list as an accepted type, is refused: on an
  activated store with a readable, writable backing file, creating a memory of type
  \<^verbatim>\<open>rules\<close> returns \<^verbatim>\<open>invalid_memory_type\<close> and leaves the state as it was,
  while the same call with type \<^verbatim>\<open>guidelines\<close> succeeds.
\<close>

theorem store_memory_rejects_rules:
  "store_memory ''123e4567-e89b-42d3-a456-426614174000'' ''2024-01-01T00:00:00.000000Z''
     \<lparr>project_id = Some ''p1'',
      fs = \<lparr>dir = Some \<lparr>project_id_file = Some ''p1'',
               memories_file = Some (Json \<lparr>data_project_id = Some ''p1'', memories = []\<rparr>)\<rparr>,
            read_only = False\<rparr>\<rparr>
     (Some ''Test rules'') ''rules'' (Some ''Content'') =
   (Inl (InvalidMemoryTypeError ''rules''),
     \<lparr>project_id = Some ''p1'',
      fs = \<lparr>dir = Some \<lparr>project_id_file = Some ''p1'',
               memories_file = Some (Json \<lparr>data_project_id = Some ''p1'', memories = []\<rparr>)\<rparr>,
            read_only = False\<rparr>\<rparr>) \<and>
   error_code (InvalidMemoryTypeError ''rules'') = ''invalid_memory_type'' \<and>
   fst (store_memory ''123e4567-e89b-42d3-a456-426614174000'' ''2024-01-01T00:00:00.000000Z''
     \<lparr>project_id = Some ''p1'',
      fs = \<lparr>dir = Some \<lparr>project_id_file = Some ''p1'',
               memories_file = Some (Json \<lparr>data_project_id = Some ''p1'', memories = []\<rparr>)\<rparr>,
            read_only = False\<rparr>\<rparr>
     (Some ''Test guidelines'') ''guidelines'' (Some ''Content'')) =
   Inr ''123e4567-e89b-42d3-a456-426614174000''"
  by (simp add: store_memory_def ensure_activated_def validate_required_field_def
        validate_memory_type_def ALLOWED_MEMORY_TYPES_def read_memories_file_def
        memories_path_def write_memories_file_def)

text \<open>
  Claim C3. On an activated store, a creation whose title is \<^verbatim>\<open>None\<close> or empty,
  whose type is not allowed, or whose content is \<^verbatim>\<open>None\<close>, returns the validation
  error of the first check that fails (title, then type, then content) and leaves the
  state as it was. Nothing is assumed about the file system: the result is the same
  when the backing file is unreadable and the directory refuses writes, so no read or
  write comes before the checks.
\<close>

theorem create_validation_errors:
  assumes "project_id s \<noteq> None"
    and "ttl = None \<or> ttl = Some [] \<or> mt \<notin> ALLOWED_MEMORY_TYPES \<or> cnt = None"
  shows "store_memory uuid4 now s ttl mt cnt =
           (Inl (if ttl = None \<or> ttl = Some [] then MissingRequiredFieldError ''title''
                 else if mt \<notin> ALLOWED_MEMORY_TYPES then InvalidMemoryTypeError mt
                 else MissingRequiredFieldError ''content''), s)"
  using assms
  by (auto simp: store_memory_def ensure_activated_def validate_required_field_def
        validate_memory_type_def split: option.splits)

theorem create_validation_errors_witness:
  "store_memory ''u1'' ''2024'' 
     \<lparr>project_id = Some ''p1'',
      fs = \<lparr>dir = Some \<lparr>project_id_file = Some ''p1'', memories_file = Some Malformed\<rparr>,
            read_only = True\<rparr>\<rparr>
     (Some ''T1'') ''design_doc'' None =
   (Inl (MissingRequiredFieldError ''content''),
     \<lparr>project_id = Some ''p1'',
      fs = \<lparr>dir = Some \<lparr>project_id_file = Some ''p1'', memories_file = Some Malformed\<rparr>,
            read_only = True\<rparr>\<rparr>)"
  using create_validation_errors
    [of "\<lparr>project_id = Some ''p1'',
          fs = \<lparr>dir = Some \<lparr>project_id_file = Some ''p1'', memories_file = Some Malformed\<rparr>,
                read_only = True\<rparr>\<rparr>"
        "Some ''T1''" "''design_doc''" None "''u1''" "''2024''"]
  by (simp add: ALLOWED_MEMORY_TYPES_def)

section \<open>Listing\<close>

text \<open>
  Claim C6. On an activated store, listing with a type filter returns the metadata
  (id, title and type; the result type has no content field) of exactly the stored
  memories whose type equals the filter, in file order, which is insertion order.
  When no stored memory has that type, the result is the empty list and not an error.
\<close>

theorem list_filter_subsequence:
  assumes "project_id s \<noteq> None" and "read_memories_file s = Inr d"
  shows "list_memories s (Some k) =
           (Inr (map metadata_of (filter (\<lambda>m. d_type m = k) (memories d))), s) \<and>
         (k \<notin> set (map d_type (memories d)) \<longrightarrow> list_memories s (Some k) = (Inr [], s))"
proof -
  have "k \<notin> set (map d_type (memories d)) \<Longrightarrow>
        filter (\<lambda>m. d_type m = k) (memories d) = []"
    by (auto simp: filter_empty_conv)
  with list_memories_filtered [OF assms, of k] show ?thesis by simp
qed

theorem list_filter_subsequence_witness:
  "list_memories
     \<lparr>project_id = Some ''p1'',
      fs = \<lparr>dir = Some \<lparr>project_id_file = Some ''p1'',
               memories_file = Some (Json \<lparr>data_project_id = Some ''p1'',
                 memories =
                   [\<lparr>d_id = ''u1'', d_title = ''A'', d_type = ''design_doc'',
                     d_content = ''c1'', d_created_at = ''2023'', d_updated_at = None\<rparr>,
                    \<lparr>d_id = ''u2'', d_title = ''B'', d_type = ''analysis'',
                     d_content = ''c2'', d_created_at = ''2024'', d_updated_at = None\<rparr>,
                    \<lparr>d_id = ''u3'', d_title = ''A'', d_type = ''design_doc'',
                     d_content = ''c3'', d_created_at = ''2025'',
                     d_updated_at = Some ''2026''\<rparr>]\<rparr>)\<rparr>,
            read_only = False\<rparr>\<rparr>
     (Some ''design_doc'') =
   (Inr [\<lparr>meta_id = ''u1'', meta_title = ''A'', meta_type = ''design_doc''\<rparr>,
         \<lparr>meta_id = ''u3'', meta_title = ''A'', meta_type = ''design_doc''\<rparr>],
    \<lparr>project_id = Some ''p1'',
      fs = \<lparr>dir = Some \<lparr>project_id_file = Some ''p1'',
               memories_file = Some (Json \<lparr>data_project_id = Some ''p1'',
                 memories =
                   [\<lparr>d_id = ''u1'', d_title = ''A'', d_type = ''design_doc'',
                     d_content = ''c1'', d_created_at = ''2023'', d_updated_at = None\<rparr>,
                    \<lparr>d_id = ''u2'', d_title = ''B'', d_type = ''analysis'',
                     d_content = ''c2'', d_created_at = ''2024'', d_updated_at = None\<rparr>,
                    \<lparr>d_id = ''u3'', d_title = ''A'', d_type = ''design_doc'',
                     d_content = ''c3'', d_created_at = ''2025'',
                     d_updated_at = Some ''2026''\<rparr>]\<rparr>)\<rparr>,
            read_only = False\<rparr>\<rparr>)"
proof -
  let ?ms = "[\<lparr>d_id = ''u1'', d_title = ''A'', d_type = ''design_doc'',
                d_content = ''c1'', d_created_at = ''2023'', d_updated_at = None\<rparr>,
              \<lparr>d_id = ''u2'', d_title = ''B'', d_type = ''analysis'',
                d_content = ''c2'', d_created_at = ''2024'', d_updated_at = None\<rparr>,
              \<lparr>d_id = ''u3'', d_title = ''A'', d_type = ''design_doc'',
                d_content = ''c3'', d_created_at = ''2025'', d_updated_at = Some ''2026''\<rparr>]"
  let ?d = "\<lparr>data_project_id = Some ''p1'', memories = ?ms\<rparr>"
  let ?s = "\<lparr>project_id = Some ''p1'',
             fs = \<lparr>dir = Some \<lparr>project_id_file = Some ''p1'', memories_file = Some (Json ?d)\<rparr>,
                   read_only = False\<rparr>\<rparr>"
  have a: "project_id ?s \<noteq> None" by simp
  have r: "read_memories_file ?s = Inr ?d"
    by (simp add: read_memories_file_def memories_path_def)
  from list_filter_subsequence [OF a r, of "''design_doc''"] show ?thesis
    by (simp add: metadata_of_def)
qed

text \<open>
  Claim C9. Listing does not validate its filter. On an activated store whose stored
  memories all carry an allowed type (which holds of every collection this storage
  layer has written, see \<open>store_memory_keeps_invariants\<close>), a filter outside the
  allowed types gives the empty list, and in particular no
  \<^verbatim>\<open>invalid_memory_type\<close> error.
\<close>

theorem list_unknown_filter_empty:
  assumes "project_id s \<noteq> None" and "read_memories_file s = Inr d"
    and "kinds_allowed d" and "k \<notin> ALLOWED_MEMORY_TYPES"
  shows "list_memories s (Some k) = (Inr [], s)"
proof -
  from assms(3,4) have "filter (\<lambda>m. d_type m = k) (memories d) = []"
    by (auto simp: kinds_allowed_def list_all_iff filter_empty_conv)
  with list_memories_filtered [OF assms(1,2), of k] show ?thesis by simp
qed

theorem list_unknown_filter_empty_witness:
  "list_memories
     \<lparr>project_id = Some ''p1'',
      fs = \<lparr>dir = Some \<lparr>project_id_file = Some ''p1'',
               memories_file = Some (Json \<lparr>data_project_id = Some ''p1'',
                 memories =
                   [\<lparr>d_id = ''u1'', d_title = ''A'', d_type = ''design_doc'',
                     d_content = ''c1'', d_created_at = ''2023'', d_updated_at = None\<rparr>,
                    \<lparr>d_id = ''u2'', d_title = ''B'', d_type = ''guidelines'',
                     d_content = ''c2'', d_created_at = ''2024'',
                     d_updated_at = None\<rparr>]\<rparr>)\<rparr>,
            read_only = False\<rparr>\<rparr>
     (Some ''no_such_type'') =
   (Inr [],
    \<lparr>project_id = Some ''p1'',
      fs = \<lparr>dir = Some \<lparr>project_id_file = Some ''p1'',
               memories_file = Some (Json \<lparr>data_project_id = Some ''p1'',
                 memories =
                   [\<lparr>d_id = ''u1'', d_title = ''A'', d_type = ''design_doc'',
                     d_content = ''c1'', d_created_at = ''2023'', d_updated_at = None\<rparr>,
                    \<lparr>d_id = ''u2'', d_title = ''B'', d_type = ''guidelines'',
                     d_content = ''c2'', d_created_at = ''2024'',
                     d_updated_at = None\<rparr>]\<rparr>)\<rparr>,
            read_only = False\<rparr>\<rparr>)"
proof -
  let ?d = "\<lparr>data_project_id = Some ''p1'',
              memories =
                [\<lparr>d_id = ''u1'', d_title = ''A'', d_type = ''design_doc'',
                  d_content = ''c1'', d_created_at = ''2023'', d_updated_at = None\<rparr>,
                 \<lparr>d_id = ''u2'', d_title = ''B'', d_type = ''guidelines'',
                  d_content = ''c2'', d_created_at = ''2024'', d_updated_at = None\<rparr>]\<rparr>"
  let ?s = "\<lparr>project_id = Some ''p1'',
             fs = \<lparr>dir = Some \<lparr>project_id_file = Some ''p1'', memories_file = Some (Json ?d)\<rparr>,
                   read_only = False\<rparr>\<rparr>"
  have a: "project_id ?s \<noteq> None" by simp
  have r: "read_memories_file ?s = Inr ?d"
    by (simp add: read_memories_file_def memories_path_def)
  have i: "kinds_allowed ?d" by (simp add: kinds_allowed_def ALLOWED_MEMORY_TYPES_def)
  have k: "''no_such_type'' \<notin> ALLOWED_MEMORY_TYPES" by (simp add: ALLOWED_MEMORY_TYPES_def)
  from list_unknown_filter_empty [OF a r i k] show ?thesis .
qed

section \<open>A missing backing file\<close>

text \<open>
  Claim C10. Once the instance holds a project id, a missing \<^verbatim>\<open>memories.json\<close>
  (the directory itself may be missing too) is read as the empty collection tagged with
  the project id held in memory: reading a memory, updating and deleting fail with
  \<^verbatim>\<open>memory_not_found\<close>, and listing returns the empty list, with or without a
  filter. None of them fails with \<^verbatim>\<open>storage_error\<close>, and none changes the state.
\<close>

theorem absent_file_reads_as_empty:
  assumes "project_id s = Some p" and "memories_path s = None"
  shows "read_memories_file s = Inr \<lparr>data_project_id = Some p, memories = []\<rparr> \<and>
         get_memory s mid = (Inl (MemoryNotFoundError mid), s) \<and>
         list_memories s flt = (Inr [], s) \<and>
         update_memory now s mid cnt = (Inl (MemoryNotFoundError mid), s) \<and>
         delete_memory s mid = (Inl (MemoryNotFoundError mid), s)"
  using assms
  by (simp add: read_memories_file_def get_memory_def list_memories_def update_memory_def
        delete_memory_def ensure_activated_def)

theorem absent_file_reads_as_empty_witness:
  "get_memory
     \<lparr>project_id = Some ''p1'',
      fs = \<lparr>dir = Some \<lparr>project_id_file = Some ''p1'', memories_file = None\<rparr>,
            read_only = False\<rparr>\<rparr> ''u1'' =
   (Inl (MemoryNotFoundError ''u1''),
     \<lparr>project_id = Some ''p1'',
      fs = \<lparr>dir = Some \<lparr>project_id_file = Some ''p1'', memories_file = None\<rparr>,
            read_only = False\<rparr>\<rparr>) \<and>
   list_memories
     \<lparr>project_id = Some ''p1'',
      fs = \<lparr>dir = Some \<lparr>project_id_file = Some ''p1'', memories_file = None\<rparr>,
            read_only = False\<rparr>\<rparr> (Some ''analysis'') =
   (Inr [],
     \<lparr>project_id = Some ''p1'',
      fs = \<lparr>dir = Some \<lparr>project_id_file = Some ''p1'', memories_file = None\<rparr>,
            read_only = False\<rparr>\<rparr>)"
proof -
  let ?s = "\<lparr>project_id = Some ''p1'',
             fs = \<lparr>dir = Some \<lparr>project_id_file = Some ''p1'', memories_file = None\<rparr>,
                   read_only = False\<rparr>\<rparr>"
  have a: "project_id ?s = Some ''p1''" by simp
  have b: "memories_path ?s = None" by (simp add: memories_path_def)
  from absent_file_reads_as_empty [OF a b, of "''u1''" "Some ''analysis''"]
  show ?thesis by blast
qed

section \<open>Update\<close>

text \<open>
  Claim C4. On an activated store whose backing file parses: when a stored memory has
  the id and the directory is writable, the update succeeds, and the stored list
  afterwards is the list before with exactly one element changed, the first with that id,
  whose content is the new content and whose \<open>updated_at\<close> is the time of the update;
  its id, title, type and \<open>created_at\<close>, and every other element, are as before, and a
  read of the id returns the updated memory. When no stored memory has the id, the
  update fails with \<^verbatim>\<open>memory_not_found\<close> and the state is unchanged.
\<close>

theorem update_changes_only_content:
  assumes act: "project_id s \<noteq> None" and rd: "read_memories_file s = Inr d"
  shows "(mid \<in> set (ids d) \<longrightarrow> writable s \<longrightarrow>
           (\<exists>xs m ys s'. memories d = xs @ m # ys \<and> d_id m = mid \<and>
              mid \<notin> set (map d_id xs) \<and>
              update_memory now s mid cnt = (Inr (), s') \<and>
              read_memories_file s' =
                Inr (d\<lparr>memories := xs @ m\<lparr>d_content := cnt, d_updated_at := Some now\<rparr> # ys\<rparr>) \<and>
              get_memory s' mid =
                (Inr ((from_dict m)\<lparr>content := cnt, updated_at := Some now\<rparr>), s'))) \<and>
         (mid \<notin> set (ids d) \<longrightarrow>
            update_memory now s mid cnt = (Inl (MemoryNotFoundError mid), s))"
proof (intro conjI impI)
  assume "mid \<notin> set (ids d)"
  with act rd show "update_memory now s mid cnt = (Inl (MemoryNotFoundError mid), s)"
    by (rule update_memory_absent)
next
  assume present: "mid \<in> set (ids d)" and wr: "writable s"
  from present obtain xs m ys where
    h: "memories d = xs @ m # ys" "d_id m = mid" "mid \<notin> set (map d_id xs)"
       "update_loop now mid cnt (memories d) =
          (True, xs @ m\<lparr>d_content := cnt, d_updated_at := Some now\<rparr> # ys)"
    using update_loop_present [of mid "memories d" now cnt] unfolding ids_def by blast
  let ?m' = "m\<lparr>d_content := cnt, d_updated_at := Some now\<rparr>"
  let ?d' = "d\<lparr>memories := xs @ ?m' # ys\<rparr>"
  from wr obtain s' where w: "write_memories_file s ?d' = Inr s'"
    using write_succeeds by blast
  from act rd h(4) w have u: "update_memory now s mid cnt = (Inr (), s')"
    by (auto simp: update_memory_def ensure_activated_def split: option.splits)
  from read_after_write [OF w] act
  have rd': "read_memories_file s' = Inr ?d'" and act': "project_id s' \<noteq> None" by auto
  from h(2,3) have "find_memory mid (memories ?d') = Some ?m'"
    by (simp add: find_memory_at)
  with get_memory_eq [OF act' rd', of mid]
  have g: "get_memory s' mid = (Inr ((from_dict m)\<lparr>content := cnt, updated_at := Some now\<rparr>), s')"
    by (simp add: from_dict_def)
  from h(1,2,3) u rd' g
  show "\<exists>xs m ys s'. memories d = xs @ m # ys \<and> d_id m = mid \<and>
              mid \<notin> set (map d_id xs) \<and>
              update_memory now s mid cnt = (Inr (), s') \<and>
              read_memories_file s' =
                Inr (d\<lparr>memories := xs @ m\<lparr>d_content := cnt, d_updated_at := Some now\<rparr> # ys\<rparr>) \<and>
              get_memory s' mid =
                (Inr ((from_dict m)\<lparr>content := cnt, updated_at := Some now\<rparr>), s')"
    by blast
qed

theorem update_changes_only_content_witness:
  "(\<exists>xs m ys s'.
      memories
        \<lparr>data_project_id = Some ''p1'',
                 memories =
                   [\<lparr>d_id = ''u1'', d_title = ''A'', d_type = ''design_doc'',
                     d_content = ''c1'', d_created_at = ''2023'', d_updated_at = None\<rparr>,
                    \<lparr>d_id = ''u2'', d_title = ''B'', d_type = ''analysis'',
                     d_content = ''c2'', d_created_at = ''2024'', d_updated_at = None\<rparr>]\<rparr> = xs @ m # ys \<and> d_id m = ''u2'' \<and> ''u2'' \<notin> set (map d_id xs) \<and>
      update_memory ''2026''
        \<lparr>project_id = Some ''p1'',
      fs = \<lparr>dir = Some \<lparr>project_id_file = Some ''p1'',
               memories_file = Some (Json \<lparr>data_project_id = Some ''p1'',
                 memories =
                   [\<lparr>d_id = ''u1'', d_title = ''A'', d_type = ''design_doc'',
                     d_content = ''c1'', d_created_at = ''2023'', d_updated_at = None\<rparr>,
                    \<lparr>d_id = ''u2'', d_title = ''B'', d_type = ''analysis'',
                     d_content = ''c2'', d_created_at = ''2024'', d_updated_at = None\<rparr>]\<rparr>)\<rparr>,
            read_only = False\<rparr>\<rparr> ''u2'' ''new'' = (Inr (), s') \<and>
      read_memories_file s' =
        Inr (\<lparr>data_project_id = Some ''p1'',
                 memories =
                   [\<lparr>d_id = ''u1'', d_title = ''A'', d_type = ''design_doc'',
                     d_content = ''c1'', d_created_at = ''2023'', d_updated_at = None\<rparr>,
                    \<lparr>d_id = ''u2'', d_title = ''B'', d_type = ''analysis'',
                     d_content = ''c2'', d_created_at = ''2024'', d_updated_at = None\<rparr>]\<rparr>\<lparr>memories :=
               xs @ m\<lparr>d_content := ''new'', d_updated_at := Some ''2026''\<rparr> # ys\<rparr>) \<and>
      get_memory s' ''u2'' =
        (Inr ((from_dict m)\<lparr>content := ''new'', updated_at := Some ''2026''\<rparr>), s')) \<and>
   update_memory ''2026''
     \<lparr>project_id = Some ''p1'',
      fs = \<lparr>dir = Some \<lparr>project_id_file = Some ''p1'',
               memories_file = Some (Json \<lparr>data_project_id = Some ''p1'',
                 memories =
                   [\<lparr>d_id = ''u1'', d_title = ''A'', d_type = ''design_doc'',
                     d_content = ''c1'', d_created_at = ''2023'', d_updated_at = None\<rparr>,
                    \<lparr>d_id = ''u2'', d_title = ''B'', d_type = ''analysis'',
                     d_content = ''c2'', d_created_at = ''2024'', d_updated_at = None\<rparr>]\<rparr>)\<rparr>,
            read_only = False\<rparr>\<rparr> ''u9'' ''new'' =
   (Inl (MemoryNotFoundError ''u9''),
     \<lparr>project_id = Some ''p1'',
      fs = \<lparr>dir = Some \<lparr>project_id_file = Some ''p1'',
               memories_file = Some (Json \<lparr>data_project_id = Some ''p1'',
                 memories =
                   [\<lparr>d_id = ''u1'', d_title = ''A'', d_type = ''design_doc'',
                     d_content = ''c1'', d_created_at = ''2023'', d_updated_at = None\<rparr>,
                    \<lparr>d_id = ''u2'', d_title = ''B'', d_type = ''analysis'',
                     d_content = ''c2'', d_created_at = ''2024'', d_updated_at = None\<rparr>]\<rparr>)\<rparr>,
            read_only = False\<rparr>\<rparr>)"
proof -
  let ?d = "\<lparr>data_project_id = Some ''p1'',
              memories =
                [\<lparr>d_id = ''u1'', d_title = ''A'', d_type = ''design_doc'',
                  d_content = ''c1'', d_created_at = ''2023'', d_updated_at = None\<rparr>,
                 \<lparr>d_id = ''u2'', d_title = ''B'', d_type = ''analysis'',
                  d_content = ''c2'', d_created_at = ''2024'', d_updated_at = None\<rparr>]\<rparr>"
  let ?s = "\<lparr>project_id = Some ''p1'',
             fs = \<lparr>dir = Some \<lparr>project_id_file = Some ''p1'', memories_file = Some (Json ?d)\<rparr>,
                   read_only = False\<rparr>\<rparr>"
  have a: "project_id ?s \<noteq> None" by simp
  have r: "read_memories_file ?s = Inr ?d"
    by (simp add: read_memories_file_def memories_path_def)
  have p: "''u2'' \<in> set (ids ?d)" by (simp add: ids_def)
  have q: "''u9'' \<notin> set (ids ?d)" by (simp add: ids_def)
  have w: "writable ?s" by (simp add: writable_def)
  from update_changes_only_content
    [OF a r, of "''u2''" "''2026''" "''new''", THEN conjunct1, THEN mp, OF p, THEN mp, OF w]
  have A: "\<exists>xs m ys s'.
      memories ?d = xs @ m # ys \<and> d_id m = ''u2'' \<and> ''u2'' \<notin> set (map d_id xs) \<and>
      update_memory ''2026'' ?s ''u2'' ''new'' = (Inr (), s') \<and>
      read_memories_file s' =
        Inr (?d\<lparr>memories :=
               xs @ m\<lparr>d_content := ''new'', d_updated_at := Some ''2026''\<rparr> # ys\<rparr>) \<and>
      get_memory s' ''u2'' =
        (Inr ((from_dict m)\<lparr>content := ''new'', updated_at := Some ''2026''\<rparr>), s')"
    .
  from update_changes_only_content
    [OF a r, of "''u9''" "''2026''" "''new''", THEN conjunct2, THEN mp, OF q]
  have B: "update_memory ''2026'' ?s ''u9'' ''new'' = (Inl (MemoryNotFoundError ''u9''), ?s)"
    .
  from A B show ?thesis by (rule conjI)
qed

section \<open>Deletion\<close>

text \<open>
  Claim C5. On an activated store whose backing file parses: when no stored memory has
  the id, deletion fails with \<^verbatim>\<open>memory_not_found\<close> and the state is unchanged. When
  one has it, the stored ids are pairwise distinct and the directory is writable,
  deletion succeeds and removes exactly that one element: the list before is
  \<open>xs @ m # ys\<close> with \<open>m\<close> the memory of that id, the list after is \<open>xs @ ys\<close>, so
  the order of the others is kept and the unfiltered listing is shorter by exactly one;
  a read of the id afterwards fails with \<^verbatim>\<open>memory_not_found\<close>.
\<close>

theorem delete_removes_exactly_one:
  assumes act: "project_id s \<noteq> None" and rd: "read_memories_file s = Inr d"
  shows "(mid \<in> set (ids d) \<longrightarrow> ids_distinct d \<longrightarrow> writable s \<longrightarrow>
           (\<exists>xs m ys s'. memories d = xs @ m # ys \<and> d_id m = mid \<and>
              delete_memory s mid = (Inr (), s') \<and>
              read_memories_file s' = Inr (d\<lparr>memories := xs @ ys\<rparr>) \<and>
              list_memories s None = (Inr (map metadata_of (xs @ m # ys)), s) \<and>
              list_memories s' None = (Inr (map metadata_of (xs @ ys)), s') \<and>
              get_memory s' mid = (Inl (MemoryNotFoundError mid), s'))) \<and>
         (mid \<notin> set (ids d) \<longrightarrow>
            delete_memory s mid = (Inl (MemoryNotFoundError mid), s))"
proof (intro conjI impI)
  assume "mid \<notin> set (ids d)"
  with act rd show "delete_memory s mid = (Inl (MemoryNotFoundError mid), s)"
    by (rule delete_memory_absent)
next
  assume present: "mid \<in> set (ids d)" and dist: "ids_distinct d" and wr: "writable s"
  from dist present obtain xs m ys where
    h: "memories d = xs @ m # ys" "d_id m = mid"
       "filter (\<lambda>m. d_id m \<noteq> mid) (memories d) = xs @ ys"
    using filter_distinct_split [of "memories d" mid] unfolding ids_distinct_def ids_def
    by blast
  let ?d' = "d\<lparr>memories := xs @ ys\<rparr>"
  from wr obtain s' where w: "write_memories_file s ?d' = Inr s'"
    using write_succeeds by blast
  from delete_memory_present [OF act rd present, of s'] w h(3)
  have del: "delete_memory s mid = (Inr (), s')" by simp
  from read_after_write [OF w] act
  have rd': "read_memories_file s' = Inr ?d'" and act': "project_id s' \<noteq> None" by auto
  from list_memories_all [OF act rd] h(1)
  have l: "list_memories s None = (Inr (map metadata_of (xs @ m # ys)), s)" by simp
  from list_memories_all [OF act' rd']
  have l': "list_memories s' None = (Inr (map metadata_of (xs @ ys)), s')" by simp
  have "mid \<notin> set (map d_id (filter (\<lambda>m. d_id m \<noteq> mid) (memories d)))" by auto
  with h(3) have "find_memory mid (memories ?d') = None"
    by (simp add: find_memory_None_iff)
  with get_memory_eq [OF act' rd', of mid]
  have g: "get_memory s' mid = (Inl (MemoryNotFoundError mid), s')" by simp
  from h(1,2) del rd' l l' g
  show "\<exists>xs m ys s'. memories d = xs @ m # ys \<and> d_id m = mid \<and>
              delete_memory s mid = (Inr (), s') \<and>
              read_memories_file s' = Inr (d\<lparr>memories := xs @ ys\<rparr>) \<and>
              list_memories s None = (Inr (map metadata_of (xs @ m # ys)), s) \<and>
              list_memories s' None = (Inr (map metadata_of (xs @ ys)), s') \<and>
              get_memory s' mid = (Inl (MemoryNotFoundError mid), s')"
    by blast
qed

theorem delete_removes_exactly_one_witness:
  "(\<exists>xs m ys s'.
      memories
        \<lparr>data_project_id = Some ''p1'',
                 memories =
                   [\<lparr>d_id = ''u1'', d_title = ''A'', d_type = ''design_doc'',
                     d_content = ''c1'', d_created_at = ''2023'', d_updated_at = None\<rparr>,
                    \<lparr>d_id = ''u2'', d_title = ''B'', d_type = ''analysis'',
                     d_content = ''c2'', d_created_at = ''2024'', d_updated_at = None\<rparr>]\<rparr> = xs @ m # ys \<and> d_id m = ''u2'' \<and>
      delete_memory
        \<lparr>project_id = Some ''p1'',
      fs = \<lparr>dir = Some \<lparr>project_id_file = Some ''p1'',
               memories_file = Some (Json \<lparr>data_project_id = Some ''p1'',
                 memories =
                   [\<lparr>d_id = ''u1'', d_title = ''A'', d_type = ''design_doc'',
                     d_content = ''c1'', d_created_at = ''2023'', d_updated_at = None\<rparr>,
                    \<lparr>d_id = ''u2'', d_title = ''B'', d_type = ''analysis'',
                     d_content = ''c2'', d_created_at = ''2024'', d_updated_at = None\<rparr>]\<rparr>)\<rparr>,
            read_only = False\<rparr>\<rparr> ''u2'' = (Inr (), s') \<and>
      read_memories_file s' = Inr (\<lparr>data_project_id = Some ''p1'',
                 memories =
                   [\<lparr>d_id = ''u1'', d_title = ''A'', d_type = ''design_doc'',
                     d_content = ''c1'', d_created_at = ''2023'', d_updated_at = None\<rparr>,
                    \<lparr>d_id = ''u2'', d_title = ''B'', d_type = ''analysis'',
                     d_content = ''c2'', d_created_at = ''2024'', d_updated_at = None\<rparr>]\<rparr>\<lparr>memories := xs @ ys\<rparr>) \<and>
      list_memories
        \<lparr>project_id = Some ''p1'',
      fs = \<lparr>dir = Some \<lparr>project_id_file = Some ''p1'',
               memories_file = Some (Json \<lparr>data_project_id = Some ''p1'',
                 memories =
                   [\<lparr>d_id = ''u1'', d_title = ''A'', d_type = ''design_doc'',
                     d_content = ''c1'', d_created_at = ''2023'', d_updated_at = None\<rparr>,
                    \<lparr>d_id = ''u2'', d_title = ''B'', d_type = ''analysis'',
                     d_content = ''c2'', d_created_at = ''2024'', d_updated_at = None\<rparr>]\<rparr>)\<rparr>,
            read_only = False\<rparr>\<rparr> None =
        (Inr (map metadata_of (xs @ m # ys)),
         \<lparr>project_id = Some ''p1'',
      fs = \<lparr>dir = Some \<lparr>project_id_file = Some ''p1'',
               memories_file = Some (Json \<lparr>data_project_id = Some ''p1'',
                 memories =
                   [\<lparr>d_id = ''u1'', d_title = ''A'', d_type = ''design_doc'',
                     d_content = ''c1'', d_created_at = ''2023'', d_updated_at = None\<rparr>,
                    \<lparr>d_id = ''u2'', d_title = ''B'', d_type = ''analysis'',
                     d_content = ''c2'', d_created_at = ''2024'', d_updated_at = None\<rparr>]\<rparr>)\<rparr>,
            read_only = False\<rparr>\<rparr>) \<and>
      list_memories s' None = (Inr (map metadata_of (xs @ ys)), s') \<and>
      get_memory s' ''u2'' = (Inl (MemoryNotFoundError ''u2''), s')) \<and>
   delete_memory
     \<lparr>project_id = Some ''p1'',
      fs = \<lparr>dir = Some \<lparr>project_id_file = Some ''p1'',
               memories_file = Some (Json \<lparr>data_project_id = Some ''p1'',
                 memories =
                   [\<lparr>d_id = ''u1'', d_title = ''A'', d_type = ''design_doc'',
                     d_content = ''c1'', d_created_at = ''2023'', d_updated_at = None\<rparr>,
                    \<lparr>d_id = ''u2'', d_title = ''B'', d_type = ''analysis'',
                     d_content = ''c2'', d_created_at = ''2024'', d_updated_at = None\<rparr>]\<rparr>)\<rparr>,
            read_only = False\<rparr>\<rparr> ''u9'' =
   (Inl (MemoryNotFoundError ''u9''),
     \<lparr>project_id = Some ''p1'',
      fs = \<lparr>dir = Some \<lparr>project_id_file = Some ''p1'',
               memories_file = Some (Json \<lparr>data_project_id = Some ''p1'',
                 memories =
                   [\<lparr>d_id = ''u1'', d_title = ''A'', d_type = ''design_doc'',
                     d_content = ''c1'', d_created_at = ''2023'', d_updated_at = None\<rparr>,
                    \<lparr>d_id = ''u2'', d_title = ''B'', d_type = ''analysis'',
                     d_content = ''c2'', d_created_at = ''2024'', d_updated_at = None\<rparr>]\<rparr>)\<rparr>,
            read_only = False\<rparr>\<rparr>)"
proof -
  let ?d = "\<lparr>data_project_id = Some ''p1'',
              memories =
                [\<lparr>d_id = ''u1'', d_title = ''A'', d_type = ''design_doc'',
                  d_content = ''c1'', d_created_at = ''2023'', d_updated_at = None\<rparr>,
                 \<lparr>d_id = ''u2'', d_title = ''B'', d_type = ''analysis'',
                  d_content = ''c2'', d_created_at = ''2024'', d_updated_at = None\<rparr>]\<rparr>"
  let ?s = "\<lparr>project_id = Some ''p1'',
             fs = \<lparr>dir = Some \<lparr>project_id_file = Some ''p1'', memories_file = Some (Json ?d)\<rparr>,
                   read_only = False\<rparr>\<rparr>"
  have a: "project_id ?s \<noteq> None" by simp
  have r: "read_memories_file ?s = Inr ?d"
    by (simp add: read_memories_file_def memories_path_def)
  have p: "''u2'' \<in> set (ids ?d)" by (simp add: ids_def)
  have q: "''u9'' \<notin> set (ids ?d)" by (simp add: ids_def)
  have w: "writable ?s" by (simp add: writable_def)
  have i: "ids_distinct ?d" by (simp add: ids_distinct_def ids_def)
  from delete_removes_exactly_one
    [OF a r, of "''u2''", THEN conjunct1, THEN mp, OF p, THEN mp, OF i, THEN mp, OF w]
  have A: "\<exists>xs m ys s'.
      memories ?d = xs @ m # ys \<and> d_id m = ''u2'' \<and>
      delete_memory ?s ''u2'' = (Inr (), s') \<and>
      read_memories_file s' = Inr (?d\<lparr>memories := xs @ ys\<rparr>) \<and>
      list_memories ?s None = (Inr (map metadata_of (xs @ m # ys)), ?s) \<and>
      list_memories s' None = (Inr (map metadata_of (xs @ ys)), s') \<and>
      get_memory s' ''u2'' = (Inl (MemoryNotFoundError ''u2''), s')"
    .
  from delete_removes_exactly_one [OF a r, of "''u9''", THEN conjunct2, THEN mp, OF q]
  have B: "delete_memory ?s ''u9'' = (Inl (MemoryNotFoundError ''u9''), ?s)"
    .
  from A B show ?thesis by (rule conjI)
qed

section \<open>Activation\<close>

text \<open>
  Claim C7, as stated, fails. The check \<^verbatim>\<open>_ensure_activated\<close> tests the attribute
  \<^verbatim>\<open>self.project_id\<close>, and \<^verbatim>\<open>activate_project\<close> assigns it before it writes
  the identity file. In a directory \<^verbatim>\<open>.infinity\<close> that exists, is empty and refuses
  writes, the only activation of a new instance fails with \<^verbatim>\<open>storage_error\<close>, yet
  it leaves the project id set, and a listing on that instance then returns the empty
  list and not \<^verbatim>\<open>project_not_activated\<close>.
\<close>

theorem failed_activation_counterexample:
  "activate_project ''123e4567-e89b-42d3-a456-426614174000''
     (init \<lparr>dir = Some \<lparr>project_id_file = None, memories_file = None\<rparr>, read_only = True\<rparr>) =
   (Inl StorageError,
    \<lparr>project_id = Some ''123e4567-e89b-42d3-a456-426614174000'',
     fs = \<lparr>dir = Some \<lparr>project_id_file = None, memories_file = None\<rparr>, read_only = True\<rparr>\<rparr>) \<and>
   list_memories
     \<lparr>project_id = Some ''123e4567-e89b-42d3-a456-426614174000'',
      fs = \<lparr>dir = Some \<lparr>project_id_file = None, memories_file = None\<rparr>, read_only = True\<rparr>\<rparr>
     None =
   (Inr [],
    \<lparr>project_id = Some ''123e4567-e89b-42d3-a456-426614174000'',
     fs = \<lparr>dir = Some \<lparr>project_id_file = None, memories_file = None\<rparr>, read_only = True\<rparr>\<rparr>)"
  by (simp add: activate_project_def init_def project_id_path_def list_memories_def
        ensure_activated_def read_memories_file_def memories_path_def)


text \<open>
  Claim C7, amended. On an instance whose project id is unset (a new instance, or one
  whose every activation failed before the project id was assigned), each of the five
  record operations fails with \<^verbatim>\<open>project_not_activated\<close> and returns the state,
  and with it the file system, exactly as it was; the check is the first step of each
  operation, before any access to a file.
\<close>

theorem not_activated_rejected:
  assumes "project_id s = None"
  shows "store_memory uuid4 now s ttl mt cnt = (Inl ProjectNotActivatedError, s) \<and>
         get_memory s mid = (Inl ProjectNotActivatedError, s) \<and>
         list_memories s flt = (Inl ProjectNotActivatedError, s) \<and>
         update_memory now s mid c = (Inl ProjectNotActivatedError, s) \<and>
         delete_memory s mid = (Inl ProjectNotActivatedError, s)"
  using assms
  by (simp add: store_memory_def get_memory_def list_memories_def update_memory_def
        delete_memory_def ensure_activated_def)


theorem not_activated_rejected_witness:
  "store_memory ''u1'' ''2024'' (init \<lparr>dir = None, read_only = False\<rparr>)
     (Some ''T1'') ''design_doc'' (Some ''c1'') =
     (Inl ProjectNotActivatedError, init \<lparr>dir = None, read_only = False\<rparr>) \<and>
   get_memory (init \<lparr>dir = None, read_only = False\<rparr>) ''u1'' =
     (Inl ProjectNotActivatedError, init \<lparr>dir = None, read_only = False\<rparr>) \<and>
   list_memories (init \<lparr>dir = None, read_only = False\<rparr>) None =
     (Inl ProjectNotActivatedError, init \<lparr>dir = None, read_only = False\<rparr>) \<and>
   update_memory ''2024'' (init \<lparr>dir = None, read_only = False\<rparr>) ''u1'' ''c2'' =
     (Inl ProjectNotActivatedError, init \<lparr>dir = None, read_only = False\<rparr>) \<and>
   delete_memory (init \<lparr>dir = None, read_only = False\<rparr>) ''u1'' =
     (Inl ProjectNotActivatedError, init \<lparr>dir = None, read_only = False\<rparr>)"
proof -
  have a: "project_id (init \<lparr>dir = None, read_only = False\<rparr>) = None"
    by (simp add: init_def)
  from not_activated_rejected [OF a] show ?thesis .
qed


text \<open>
  Claim C8. After an activation that succeeded with project id \<open>p\<close>, an activation
  by any instance on a later state of the same directory, one in which the identity
  file is as the first activation left it and the backing file is present (the record
  operations keep both, see \<open>store_memory_keeps_identity\<close> and its companions),
  returns \<open>p\<close> again, whatever UUID it would have drawn, and changes nothing on disk:
  the state afterwards differs from the state before at most in the attribute
  \<^verbatim>\<open>self.project_id\<close>. The UUID drawn by the first activation is a string of
  hexadecimal digits and hyphens, which \<^verbatim>\<open>strip\<close> leaves unchanged.
\<close>

theorem activate_idempotent:
  assumes u: "uuid_str u1"
    and first: "activate_project u1 s = (Inr p, s1)"
    and same: "project_id_path s2 = project_id_path s1"
    and present: "memories_path s2 \<noteq> None"
  shows "activate_project u2 s2 = (Inr p, s2\<lparr>project_id := Some p\<rparr>)"
proof -
  from activate_project_success [OF first] u
  obtain idt where "project_id_path s1 = Some idt" and "strip idt = p"
    by (auto split: option.splits simp: strip_uuid)
  with same present activate_project_existing [of s2 idt u2] show ?thesis by simp
qed



theorem activate_idempotent_witness:
  "activate_project ''123e4567-e89b-42d3-a456-426614174000''
     (init \<lparr>dir = None, read_only = False\<rparr>) =
   (Inr ''123e4567-e89b-42d3-a456-426614174000'',
    \<lparr>project_id = Some ''123e4567-e89b-42d3-a456-426614174000'',
     fs = \<lparr>dir = Some \<lparr>project_id_file = Some ''123e4567-e89b-42d3-a456-426614174000'',
              memories_file = Some (Json
                \<lparr>data_project_id = Some ''123e4567-e89b-42d3-a456-426614174000'',
                 memories = []\<rparr>)\<rparr>,
           read_only = False\<rparr>\<rparr>) \<and>
   activate_project ''00000000-0000-4000-8000-000000000000''
     (init \<lparr>dir = Some \<lparr>project_id_file = Some ''123e4567-e89b-42d3-a456-426614174000'',
              memories_file = Some (Json
                \<lparr>data_project_id = Some ''123e4567-e89b-42d3-a456-426614174000'',
                 memories = []\<rparr>)\<rparr>,
           read_only = False\<rparr>) =
   (Inr ''123e4567-e89b-42d3-a456-426614174000'',
    \<lparr>project_id = Some ''123e4567-e89b-42d3-a456-426614174000'',
     fs = \<lparr>dir = Some \<lparr>project_id_file = Some ''123e4567-e89b-42d3-a456-426614174000'',
              memories_file = Some (Json
                \<lparr>data_project_id = Some ''123e4567-e89b-42d3-a456-426614174000'',
                 memories = []\<rparr>)\<rparr>,
           read_only = False\<rparr>\<rparr>)"
proof -
  let ?u = "''123e4567-e89b-42d3-a456-426614174000''"
  let ?f = "\<lparr>dir = Some \<lparr>project_id_file = Some ?u,
              memories_file = Some (Json \<lparr>data_project_id = Some ?u, memories = []\<rparr>)\<rparr>,
            read_only = False\<rparr>"
  let ?s1 = "\<lparr>project_id = Some ?u, fs = ?f\<rparr>"
  have u: "uuid_str ?u" by (simp add: uuid_str_def)
  have first: "activate_project ?u (init \<lparr>dir = None, read_only = False\<rparr>) = (Inr ?u, ?s1)"
    by (simp add: activate_project_def init_def project_id_path_def memories_path_def
          write_memories_file_def)
  have same: "project_id_path (init ?f) = project_id_path ?s1"
    by (simp add: init_def project_id_path_def)
  have there: "memories_path (init ?f) \<noteq> None"
    by (simp add: init_def memories_path_def)
  from activate_idempotent [OF u first same there, of "''00000000-0000-4000-8000-000000000000''"]
  have "activate_project ''00000000-0000-4000-8000-000000000000'' (init ?f) = (Inr ?u, ?s1)"
    by (simp add: init_def)
  with first show ?thesis by (rule conjI)
qed


end
